theory Spec2Isabelle
  imports Complex_Main
begin

section \<open>Numbers, clock and identifiers\<close>

text \<open>
  The TypeScript sources compute with \<open>number\<close> (IEEE doubles). The model computes with
  \<^typ>\<open>real\<close>: every theorem below is a statement in exact arithmetic, without rounding.
  A division by zero yields \<open>Infinity\<close> or \<open>NaN\<close> in the source and \<open>0\<close> in HOL, so a
  theorem whose statement depends on the value of a quotient carries the hypotheses that
  keep the divisor away from zero, or the model treats the zero divisor as a case of its
  own. \<open>Date.now()\<close> and the random identifier of a trade are read from outside the
  program; the model takes them as the arguments \<open>now\<close> (one reading for each call of a
  method) and \<open>tradeId\<close>.
\<close>

section \<open>liquidityPool.ts\<close>

datatype token = TokenA | TokenB

record LiquidityPool =
  tokenAReserve :: real
  tokenBReserve :: real
  lpTokenSupply :: real
  fee :: real
  lastUpdate :: int

text \<open>The result interfaces of types.ts. \<open>SwapResult.fee\<close> and
  \<open>RemoveLiquidityResult.fee\<close> are renamed, the field name \<open>fee\<close> being taken by the pool.\<close>

record SwapResult =
  amountIn :: real
  amountOut :: real
  priceImpact :: real
  swapFee :: real
  newPrice :: real

record AddLiquidityResult =
  lpTokensReceived :: real
  tokenADeposited :: real
  tokenBDeposited :: real
  shareOfPool :: real

record RemoveLiquidityResult =
  lpTokensBurned :: real
  tokenAReceived :: real
  tokenBReceived :: real
  removeFee :: real

text \<open>One constructor for each \<open>throw new Error(...)\<close> of the class, in the order of the file.\<close>

datatype pool_error =
    PoolAlreadyInitialized
  | InvalidInitialLiquidityAmounts
  | InitialLiquidityTooLow
  | InvalidSwapAmount
  | SlippageExceeded real real
  | InvalidLPTokenAmount
  | InsufficientLiquidity
  | FeeOutOfRange

definition DEFAULT_POOL_FEE :: real where
  "DEFAULT_POOL_FEE = 3 / 1000"

definition MINIMUM_LIQUIDITY :: real where
  "MINIMUM_LIQUIDITY = 1000"

text \<open>The constructor: the field initialisers and the fee argument.\<close>

definition newLiquidityPool :: "real \<Rightarrow> int \<Rightarrow> LiquidityPool" where
  "newLiquidityPool f now =
     \<lparr>tokenAReserve = 0, tokenBReserve = 0, lpTokenSupply = 0, fee = f, lastUpdate = now\<rparr>"

text \<open>
  A method that can throw returns the pool as it stands when the method is left, paired
  with the error or the result: what a \<open>throw\<close> leaves behind is visible in the model.
\<close>

definition initialize ::
  "LiquidityPool \<Rightarrow> int \<Rightarrow> real \<Rightarrow> real \<Rightarrow> LiquidityPool \<times> (pool_error + AddLiquidityResult)" where
  "initialize p now tokenAAmount tokenBAmount =
     (if lpTokenSupply p > 0 then (p, Inl PoolAlreadyInitialized)
      else if tokenAAmount \<le> 0 \<or> tokenBAmount \<le> 0 then (p, Inl InvalidInitialLiquidityAmounts)
      else
        let initialLiquidity = sqrt (tokenAAmount * tokenBAmount) in
        if initialLiquidity < MINIMUM_LIQUIDITY then (p, Inl InitialLiquidityTooLow)
        else
          let p' = p\<lparr>tokenAReserve := tokenAAmount,
                      tokenBReserve := tokenBAmount,
                      lpTokenSupply := initialLiquidity - MINIMUM_LIQUIDITY,
                      lastUpdate := now\<rparr>
          in (p', Inr \<lparr>lpTokensReceived = lpTokenSupply p',
                       tokenADeposited = tokenAAmount,
                       tokenBDeposited = tokenBAmount,
                       shareOfPool = 1\<rparr>))"

definition getPrice :: "LiquidityPool \<Rightarrow> real" where
  "getPrice p = (if tokenAReserve p = 0 then 0 else tokenBReserve p / tokenAReserve p)"

definition getSpotPrice :: "LiquidityPool \<Rightarrow> token \<Rightarrow> real" where
  "getSpotPrice p tokenIn =
     (case tokenIn of
        TokenA \<Rightarrow> (if tokenAReserve p > 0 then tokenBReserve p / tokenAReserve p else 0)
      | TokenB \<Rightarrow> (if tokenBReserve p > 0 then tokenAReserve p / tokenBReserve p else 0))"

definition simulateSwap :: "LiquidityPool \<Rightarrow> real \<Rightarrow> token \<Rightarrow> pool_error + SwapResult" where
  "simulateSwap p amount tokenIn =
     (if amount \<le> 0 then Inl InvalidSwapAmount
      else
        let feeAmount = amount * fee p;
            amountInAfterFee = amount - feeAmount;
            k = tokenAReserve p * tokenBReserve p;
            newReserveIn = (case tokenIn of
                              TokenA \<Rightarrow> tokenAReserve p + amountInAfterFee
                            | TokenB \<Rightarrow> tokenBReserve p + amountInAfterFee);
            newReserveOut = k / newReserveIn;
            out = (case tokenIn of
                     TokenA \<Rightarrow> tokenBReserve p - newReserveOut
                   | TokenB \<Rightarrow> tokenAReserve p - newReserveOut);
            spotPriceBefore = getSpotPrice p tokenIn;
            executionPrice = out / amount
        in Inr \<lparr>amountIn = amount,
                amountOut = out,
                priceImpact = \<bar>executionPrice - spotPriceBefore\<bar> / spotPriceBefore,
                swapFee = feeAmount,
                newPrice = (case tokenIn of
                              TokenA \<Rightarrow> newReserveOut / newReserveIn
                            | TokenB \<Rightarrow> newReserveIn / newReserveOut)\<rparr>)"

definition executeSwap ::
  "LiquidityPool \<Rightarrow> int \<Rightarrow> real \<Rightarrow> token \<Rightarrow> real \<Rightarrow> LiquidityPool \<times> (pool_error + SwapResult)" where
  "executeSwap p now amount tokenIn minAmountOut =
     (case simulateSwap p amount tokenIn of
        Inl e \<Rightarrow> (p, Inl e)
      | Inr result \<Rightarrow>
          if amountOut result < minAmountOut
          then (p, Inl (SlippageExceeded minAmountOut (amountOut result)))
          else
            let amountInAfterFee = amount - swapFee result;
                p' = (case tokenIn of
                        TokenA \<Rightarrow> p\<lparr>tokenAReserve := tokenAReserve p + amountInAfterFee,
                                     tokenBReserve := tokenBReserve p - amountOut result\<rparr>
                      | TokenB \<Rightarrow> p\<lparr>tokenBReserve := tokenBReserve p + amountInAfterFee,
                                     tokenAReserve := tokenAReserve p - amountOut result\<rparr>)
            in (p'\<lparr>lastUpdate := now\<rparr>, Inr result))"

definition removeLiquidity ::
  "LiquidityPool \<Rightarrow> int \<Rightarrow> real \<Rightarrow> LiquidityPool \<times> (pool_error + RemoveLiquidityResult)" where
  "removeLiquidity p now lpTokens =
     (if lpTokens \<le> 0 \<or> lpTokens > lpTokenSupply p then (p, Inl InvalidLPTokenAmount)
      else
        let shareRatio = lpTokens / lpTokenSupply p;
            tokenAAmount = tokenAReserve p * shareRatio;
            tokenBAmount = tokenBReserve p * shareRatio
        in (p\<lparr>tokenAReserve := tokenAReserve p - tokenAAmount,
               tokenBReserve := tokenBReserve p - tokenBAmount,
               lpTokenSupply := lpTokenSupply p - lpTokens,
               lastUpdate := now\<rparr>,
            Inr \<lparr>lpTokensBurned = lpTokens,
                 tokenAReceived = tokenAAmount,
                 tokenBReceived = tokenBAmount,
                 removeFee = 0\<rparr>))"

definition getAmountOut :: "LiquidityPool \<Rightarrow> real \<Rightarrow> token \<Rightarrow> pool_error + real" where
  "getAmountOut p amount tokenIn =
     (case simulateSwap p amount tokenIn of
        Inl e \<Rightarrow> Inl e
      | Inr result \<Rightarrow> Inr (amountOut result))"

definition getAmountIn :: "LiquidityPool \<Rightarrow> real \<Rightarrow> token \<Rightarrow> pool_error + real" where
  "getAmountIn p out tokenOut =
     (if out \<le> 0 then Inr 0
      else
        let reserveIn = (case tokenOut of TokenA \<Rightarrow> tokenBReserve p | TokenB \<Rightarrow> tokenAReserve p);
            reserveOut = (case tokenOut of TokenA \<Rightarrow> tokenAReserve p | TokenB \<Rightarrow> tokenBReserve p)
        in if out \<ge> reserveOut then Inl InsufficientLiquidity
           else
             let numerator = reserveIn * out;
                 denominator = (reserveOut - out) * (1 - fee p)
             in Inr (numerator / denominator))"

definition setFee :: "LiquidityPool \<Rightarrow> real \<Rightarrow> LiquidityPool \<times> (pool_error + unit)" where
  "setFee p f = (if f < 0 \<or> f \<ge> 1 then (p, Inl FeeOutOfRange) else (p\<lparr>fee := f\<rparr>, Inr ()))"

section \<open>inventory.ts\<close>

datatype side = Buy | Sell

text \<open>\<open>Trade\<close> of types.ts; its fields carry the prefix \<open>t_\<close>, since \<open>id\<close> and \<open>size\<close>
  are constants of HOL and \<open>Order\<close> has fields of the same names.\<close>

record Trade =
  t_id :: string
  t_side :: side
  t_price :: real
  t_size :: real
  t_timestamp :: int
  t_fee :: real

record InventoryConfig =
  targetInventory :: real
  maxInventory :: real
  minInventory :: real
  rebalanceThreshold :: real
  skewSensitivity :: real

record Position =
  baseBalance :: real
  quoteBalance :: real
  netExposure :: real
  unrealizedPnL :: real

definition DEFAULT_INVENTORY_CONFIG :: InventoryConfig where
  "DEFAULT_INVENTORY_CONFIG =
     \<lparr>targetInventory = 0, maxInventory = 1000, minInventory = - 1000,
      rebalanceThreshold = 3 / 10, skewSensitivity = 3 / 2\<rparr>"

record InventoryController =
  config :: InventoryConfig
  currentInventory :: real
  tradeHistory :: "Trade list"
  avgEntryPrice :: real

text \<open>The two \<open>console.warn\<close> lines of \<open>enforceInventoryLimits\<close>, with the two numbers each
  prints. A warning is returned beside the new state; nothing is thrown.\<close>

datatype inventory_warning =
    InventoryExceededMax real real
  | InventoryBelowMin real real

definition newInventoryController :: "InventoryConfig \<Rightarrow> InventoryController" where
  "newInventoryController cfg =
     \<lparr>config = cfg, currentInventory = 0, tradeHistory = [], avgEntryPrice = 0\<rparr>"

text \<open>\<open>updateAvgEntryPrice\<close> runs after \<open>currentInventory\<close> has been moved by the trade: it
  reads the inventory after the trade and before the limits are enforced.\<close>

definition updateAvgEntryPrice ::
  "InventoryController \<Rightarrow> real \<Rightarrow> real \<Rightarrow> side \<Rightarrow> InventoryController" where
  "updateAvgEntryPrice c price sz sd =
     (if sd = Buy \<and> currentInventory c > 0 then
        let previousValue = avgEntryPrice c * (currentInventory c - sz);
            newValue = price * sz
        in c\<lparr>avgEntryPrice := (previousValue + newValue) / currentInventory c\<rparr>
      else if sd = Sell \<and> currentInventory c < 0 then
        let previousValue = avgEntryPrice c * \<bar>currentInventory c + sz\<bar>;
            newValue = price * sz
        in c\<lparr>avgEntryPrice := (previousValue + newValue) / \<bar>currentInventory c\<bar>\<rparr>
      else c)"

definition enforceInventoryLimits ::
  "InventoryController \<Rightarrow> real \<Rightarrow> InventoryController \<times> inventory_warning option" where
  "enforceInventoryLimits c previousInventory =
     (if currentInventory c > maxInventory (config c) then
        (c\<lparr>currentInventory := maxInventory (config c)\<rparr>,
         Some (InventoryExceededMax (currentInventory c) (maxInventory (config c))))
      else if currentInventory c < minInventory (config c) then
        (c\<lparr>currentInventory := minInventory (config c)\<rparr>,
         Some (InventoryBelowMin (currentInventory c) (minInventory (config c))))
      else (c, None))"

definition updateInventory ::
  "InventoryController \<Rightarrow> Trade \<Rightarrow> InventoryController \<times> inventory_warning option" where
  "updateInventory c trade =
     (let previousInventory = currentInventory c;
          c1 = (if t_side trade = Buy
                then updateAvgEntryPrice
                       (c\<lparr>currentInventory := currentInventory c + t_size trade\<rparr>)
                       (t_price trade) (t_size trade) Buy
                else updateAvgEntryPrice
                       (c\<lparr>currentInventory := currentInventory c - t_size trade\<rparr>)
                       (t_price trade) (t_size trade) Sell);
          pushed = tradeHistory c1 @ [trade];
          c2 = c1\<lparr>tradeHistory :=
                     (if length pushed > 1000 then drop (length pushed - 500) pushed
                      else pushed)\<rparr>
      in enforceInventoryLimits c2 previousInventory)"

definition calculatePosition :: "InventoryController \<Rightarrow> real \<Rightarrow> Position" where
  "calculatePosition c currentPrice =
     (let exposure = currentInventory c * currentPrice;
          pnl = (if currentInventory c > 0
                 then currentInventory c * (currentPrice - avgEntryPrice c)
                 else if currentInventory c < 0
                 then \<bar>currentInventory c\<bar> * (avgEntryPrice c - currentPrice)
                 else 0)
      in \<lparr>baseBalance = currentInventory c, quoteBalance = - exposure,
          netExposure = exposure, unrealizedPnL = pnl\<rparr>)"

text \<open>The value of \<open>this.currentInventory\<close> in \<open>updateInventory\<close> once the trade has been
  added or subtracted, before \<open>enforceInventoryLimits\<close> runs; named so that theorems can
  speak about it.\<close>

definition movedInventory :: "InventoryController \<Rightarrow> Trade \<Rightarrow> real" where
  "movedInventory c trade =
     (if t_side trade = Buy then currentInventory c + t_size trade
      else currentInventory c - t_size trade)"

section \<open>spread.ts\<close>

record SpreadConfig =
  baseSpread :: real
  minSpread :: real
  maxSpread :: real
  volatilityMultiplier :: real
  inventorySkewMultiplier :: real

record MarketData =
  symbol :: string
  lastPrice :: real
  bidPrice :: real
  askPrice :: real
  volume24h :: real
  high24h :: real
  low24h :: real
  volatility :: real

text \<open>\<open>InventoryState\<close> of types.ts; the fields it shares with the controller and its
  configuration carry the prefix \<open>s_\<close>.\<close>

record InventoryState =
  s_currentInventory :: real
  s_targetInventory :: real
  inventoryRatio :: real
  skewFactor :: real
  s_maxInventory :: real
  s_minInventory :: real

text \<open>The object \<open>{ bidSpread, askSpread }\<close> that \<open>calculateOptimalSpread\<close> returns.\<close>

record Spreads =
  bidSpread :: real
  askSpread :: real

definition DEFAULT_SPREAD_CONFIG :: SpreadConfig where
  "DEFAULT_SPREAD_CONFIG =
     \<lparr>baseSpread = 2 / 1000, minSpread = 5 / 10000, maxSpread = 2 / 100,
      volatilityMultiplier = 2, inventorySkewMultiplier = 1 / 2\<rparr>"

text \<open>At \<open>volume24h = -1\<close> the quotient of \<open>calculateBaseSpread\<close> is \<open>1000000 / 0\<close>, which
  is \<open>Infinity\<close> in the source: \<open>Math.min(2, Infinity)\<close> is 2 and the volume factor is 2.
  The model has this case as a branch of its own.\<close>

definition calculateBaseSpread :: "SpreadConfig \<Rightarrow> MarketData \<Rightarrow> real" where
  "calculateBaseSpread cfg marketData =
     (let volumeFactor = (if volume24h marketData + 1 = 0 then 2
                          else max (1 / 2) (min 2 (1000000 / (volume24h marketData + 1))))
      in baseSpread cfg * volumeFactor)"

definition calculateVolatilityAdjustment :: "SpreadConfig \<Rightarrow> real \<Rightarrow> real" where
  "calculateVolatilityAdjustment cfg vol =
     (let normalizedVolatility = max 0 (vol - 1 / 100)
      in normalizedVolatility * volatilityMultiplier cfg)"

definition calculateInventorySkew :: "SpreadConfig \<Rightarrow> InventoryState \<Rightarrow> real" where
  "calculateInventorySkew cfg inventoryState =
     (let deviation = inventoryRatio inventoryState - 1 / 2
      in deviation * inventorySkewMultiplier cfg * 2)"

definition calculateOptimalSpread :: "SpreadConfig \<Rightarrow> MarketData \<Rightarrow> InventoryState \<Rightarrow> Spreads" where
  "calculateOptimalSpread cfg marketData inventoryState =
     (let base = calculateBaseSpread cfg marketData;
          volatilityAdjustment = calculateVolatilityAdjustment cfg (volatility marketData);
          inventorySkew = calculateInventorySkew cfg inventoryState;
          totalSpread = min (max (base + volatilityAdjustment) (minSpread cfg)) (maxSpread cfg);
          halfSpread = totalSpread / 2;
          bid = halfSpread * (1 + inventorySkew);
          ask = halfSpread * (1 - inventorySkew)
      in \<lparr>bidSpread = max bid (minSpread cfg / 2),
          askSpread = max ask (minSpread cfg / 2)\<rparr>)"

text \<open>The local constant \<open>totalSpread\<close> of \<open>calculateOptimalSpread\<close>, named so that
  theorems can speak about it.\<close>

definition totalSpread :: "SpreadConfig \<Rightarrow> MarketData \<Rightarrow> real" where
  "totalSpread cfg marketData =
     min (max (calculateBaseSpread cfg marketData
               + calculateVolatilityAdjustment cfg (volatility marketData))
              (minSpread cfg))
         (maxSpread cfg)"

section \<open>marketMaker.ts\<close>

datatype OrderStatus = Pending | Filled | Partial | Cancelled | Rejected

record Order =
  o_id :: string
  o_side :: side
  o_price :: real
  o_size :: real
  filledSize :: real
  status :: OrderStatus
  createdAt :: int
  updatedAt :: int

record MarketMakerConfig =
  spread :: SpreadConfig
  inventory :: InventoryConfig
  orderSize :: real
  maxOrderSize :: real
  minOrderSize :: real
  priceTickSize :: real
  sizeTickSize :: real
  updateIntervalMs :: real

definition DEFAULT_CONFIG :: MarketMakerConfig where
  "DEFAULT_CONFIG =
     \<lparr>spread = DEFAULT_SPREAD_CONFIG, inventory = DEFAULT_INVENTORY_CONFIG,
      orderSize = 100, maxOrderSize = 500, minOrderSize = 10,
      priceTickSize = 1 / 10000, sizeTickSize = 1 / 100, updateIntervalMs = 1000\<rparr>"

text \<open>The coordinator. Its \<open>config\<close> and \<open>tradeHistory\<close> carry the prefix \<open>mm_\<close>; the
  \<open>Map\<close> of active orders is a partial function from order ids.\<close>

record MarketMaker =
  mm_config :: MarketMakerConfig
  spreadCalculator :: SpreadConfig
  inventoryController :: InventoryController
  liquidityPool :: LiquidityPool
  activeOrders :: "string \<rightharpoonup> Order"
  mm_tradeHistory :: "Trade list"
  isRunning :: bool
  startTime :: int
  totalVolume :: real
  realizedPnL :: real

definition newMarketMaker :: "MarketMakerConfig \<Rightarrow> int \<Rightarrow> MarketMaker" where
  "newMarketMaker cfg now =
     \<lparr>mm_config = cfg,
      spreadCalculator = spread cfg,
      inventoryController = newInventoryController (inventory cfg),
      liquidityPool = newLiquidityPool DEFAULT_POOL_FEE now,
      activeOrders = Map.empty,
      mm_tradeHistory = [],
      isRunning = False,
      startTime = 0,
      totalVolume = 0,
      realizedPnL = 0\<rparr>"

text \<open>The loop of \<open>getAvgEntryPrice\<close>: the pair is \<open>(totalCost, totalSize)\<close>.\<close>

fun buyTotals :: "Trade list \<Rightarrow> real \<times> real \<Rightarrow> real \<times> real" where
  "buyTotals [] acc = acc"
| "buyTotals (trade # rest) (totalCost, totalSize) =
     (if t_side trade = Buy
      then buyTotals rest (totalCost + t_price trade * t_size trade, totalSize + t_size trade)
      else buyTotals rest (totalCost, totalSize))"

definition getAvgEntryPrice :: "MarketMaker \<Rightarrow> real" where
  "getAvgEntryPrice mm =
     (if length (mm_tradeHistory mm) = 0 then 0
      else
        let (totalCost, totalSize) = buyTotals (mm_tradeHistory mm) (0, 0)
        in if totalSize > 0 then totalCost / totalSize else 0)"

definition updateRealizedPnL :: "MarketMaker \<Rightarrow> Trade \<Rightarrow> MarketMaker" where
  "updateRealizedPnL mm trade =
     (let position = calculatePosition (inventoryController mm) (t_price trade)
      in if (t_side trade = Sell \<and> baseBalance position \<ge> 0)
            \<or> (t_side trade = Buy \<and> baseBalance position \<le> 0)
         then
           let pnl = (if t_side trade = Sell
                      then (t_price trade - getAvgEntryPrice mm) * t_size trade
                      else (getAvgEntryPrice mm - t_price trade) * t_size trade)
           in mm\<lparr>realizedPnL := realizedPnL mm + (pnl - t_fee trade)\<rparr>
         else mm)"

text \<open>
  \<open>processFill\<close> returns the coordinator after the call, the warning the inventory
  controller printed (if any) and the trade, \<open>None\<close> standing for \<open>null\<close>. The order is
  an object held by the map: the writes to its fields are writes to the map's entry,
  which the call removes once the order is filled.
\<close>

definition processFill ::
  "MarketMaker \<Rightarrow> int \<Rightarrow> string \<Rightarrow> string \<Rightarrow> real \<Rightarrow> real
     \<Rightarrow> MarketMaker \<times> inventory_warning option \<times> Trade option" where
  "processFill mm now tradeId orderId fillSize fillPrice =
     (case activeOrders mm orderId of
        None \<Rightarrow> (mm, None, None)
      | Some order \<Rightarrow>
          let order1 = order\<lparr>filledSize := filledSize order + fillSize, updatedAt := now\<rparr>;
              orders = (if filledSize order1 \<ge> o_size order1
                        then (activeOrders mm)(orderId := None)
                        else (activeOrders mm)(orderId \<mapsto> order1\<lparr>status := Partial\<rparr>));
              trade = \<lparr>t_id = tradeId, t_side = o_side order1, t_price = fillPrice,
                       t_size = fillSize, t_timestamp = now,
                       t_fee = fillSize * fillPrice * (1 / 1000)\<rparr>;
              (controller, warning) = updateInventory (inventoryController mm) trade;
              mm1 = mm\<lparr>activeOrders := orders,
                       inventoryController := controller,
                       mm_tradeHistory := mm_tradeHistory mm @ [trade],
                       totalVolume := totalVolume mm + fillSize * fillPrice\<rparr>
          in (updateRealizedPnL mm1 trade, warning, Some trade))"

section \<open>Arithmetic of the constant-product formulas\<close>

lemma swap_out_arith:
  fixes a b xi :: real
  assumes "0 < a + xi"
  shows "b - a * b / (a + xi) = b * xi / (a + xi)"
  using assms by (simp add: field_simps)

lemma roundtrip_arith:
  fixes a b xi f :: real
  assumes "0 < a" and "0 < b" and "0 < xi" and "f < 1"
  shows "a * (b * xi / (a + xi)) / ((b - b * xi / (a + xi)) * (1 - f)) = xi / (1 - f)"
proof -
  define c where "c = a * b / (a + xi)"
  have cpos: "c \<noteq> 0" unfolding c_def using assms by simp
  have d: "0 < a + xi" using assms by simp
  have r: "b - b * xi / (a + xi) = c"
    unfolding c_def using d by (simp add: field_simps)
  have n: "a * (b * xi / (a + xi)) = c * xi"
    unfolding c_def by simp
  show ?thesis unfolding r n using cpos by simp
qed

lemma sqrt_150000000_bounds:
  "122474 / 10 < sqrt 150000000" "sqrt 150000000 < 122475 / 10"
proof -
  have "(122474 / 10 :: real)\<^sup>2 < 150000000" by (simp add: power2_eq_square)
  then show "122474 / 10 < sqrt 150000000" by (rule real_less_rsqrt)
  have "(150000000 :: real) < (122475 / 10)\<^sup>2" by (simp add: power2_eq_square)
  then show "sqrt 150000000 < 122475 / 10" by (intro real_less_lsqrt) simp_all
qed

section \<open>The branches of initialize\<close>

lemma initialize_failure:
  "isl (snd (initialize p now a b)) \<longleftrightarrow>
     (lpTokenSupply p > 0 \<or> a \<le> 0 \<or> b \<le> 0 \<or> sqrt (a * b) < 1000)"
  by (simp add: initialize_def MINIMUM_LIQUIDITY_def Let_def)

lemma initialize_failure_state:
  "isl (snd (initialize p now a b)) \<Longrightarrow> fst (initialize p now a b) = p"
  by (auto simp: initialize_def MINIMUM_LIQUIDITY_def Let_def split: if_splits)

lemma initialize_success:
  assumes "\<not> isl (snd (initialize p now a b))"
  shows "initialize p now a b =
           (p\<lparr>tokenAReserve := a, tokenBReserve := b,
              lpTokenSupply := sqrt (a * b) - 1000, lastUpdate := now\<rparr>,
            Inr \<lparr>lpTokensReceived = sqrt (a * b) - 1000, tokenADeposited = a,
                 tokenBDeposited = b, shareOfPool = 1\<rparr>)"
  using assms by (simp add: initialize_def MINIMUM_LIQUIDITY_def Let_def split: if_splits)

lemma initialize_example:
  "initialize (newLiquidityPool f t0) now 10000 15000 =
     (\<lparr>tokenAReserve = 10000, tokenBReserve = 15000,
       lpTokenSupply = sqrt 150000000 - 1000, fee = f, lastUpdate = now\<rparr>,
      Inr \<lparr>lpTokensReceived = sqrt 150000000 - 1000, tokenADeposited = 10000,
           tokenBDeposited = 15000, shareOfPool = 1\<rparr>)"
  using sqrt_150000000_bounds(1)
  by (simp add: initialize_def newLiquidityPool_def MINIMUM_LIQUIDITY_def Let_def)

section \<open>The inventory controller step by step\<close>

lemma updateAvgEntryPrice_fields:
  "config (updateAvgEntryPrice c price sz sd) = config c"
  "currentInventory (updateAvgEntryPrice c price sz sd) = currentInventory c"
  "tradeHistory (updateAvgEntryPrice c price sz sd) = tradeHistory c"
  by (simp_all add: updateAvgEntryPrice_def Let_def)

lemma enforceInventoryLimits_config:
  "config (fst (enforceInventoryLimits c previous)) = config c"
  by (simp add: enforceInventoryLimits_def)

lemma enforceInventoryLimits_bounds:
  assumes "minInventory (config c) \<le> maxInventory (config c)"
  shows "minInventory (config c) \<le> currentInventory (fst (enforceInventoryLimits c previous))"
    and "currentInventory (fst (enforceInventoryLimits c previous)) \<le> maxInventory (config c)"
  using assms by (simp_all add: enforceInventoryLimits_def)

lemma updateInventory_config:
  "config (fst (updateInventory c trade)) = config c"
  by (simp add: updateInventory_def Let_def enforceInventoryLimits_config updateAvgEntryPrice_fields)

lemma enforceInventoryLimits_stored:
  "currentInventory (fst (enforceInventoryLimits c previous)) =
     (if currentInventory c > maxInventory (config c) then maxInventory (config c)
      else if currentInventory c < minInventory (config c) then minInventory (config c)
      else currentInventory c)"
  by (simp add: enforceInventoryLimits_def)

lemma enforceInventoryLimits_warning:
  "snd (enforceInventoryLimits c previous) =
     (if currentInventory c > maxInventory (config c)
      then Some (InventoryExceededMax (currentInventory c) (maxInventory (config c)))
      else if currentInventory c < minInventory (config c)
      then Some (InventoryBelowMin (currentInventory c) (minInventory (config c)))
      else None)"
  by (simp add: enforceInventoryLimits_def)

lemma updateInventory_stored:
  "currentInventory (fst (updateInventory c trade)) =
     (if movedInventory c trade > maxInventory (config c) then maxInventory (config c)
      else if movedInventory c trade < minInventory (config c) then minInventory (config c)
      else movedInventory c trade)"
  unfolding updateInventory_def Let_def enforceInventoryLimits_stored
  by (simp add: updateAvgEntryPrice_fields movedInventory_def)

lemma updateInventory_warning:
  "snd (updateInventory c trade) =
     (if movedInventory c trade > maxInventory (config c)
      then Some (InventoryExceededMax (movedInventory c trade) (maxInventory (config c)))
      else if movedInventory c trade < minInventory (config c)
      then Some (InventoryBelowMin (movedInventory c trade) (minInventory (config c)))
      else None)"
  unfolding updateInventory_def Let_def enforceInventoryLimits_warning
  by (simp add: updateAvgEntryPrice_fields movedInventory_def)

text \<open>What \<open>updateInventory\<close> stores as average entry price, in terms of the inventory
  before the trade: the buy branch weighs the old average by the signed inventory, the
  sell branch by its absolute value.\<close>

lemma updateInventory_avgEntryPrice:
  "avgEntryPrice (fst (updateInventory c trade)) =
     (if t_side trade = Buy \<and> currentInventory c + t_size trade > 0
      then (avgEntryPrice c * currentInventory c + t_price trade * t_size trade)
             / (currentInventory c + t_size trade)
      else if t_side trade = Sell \<and> currentInventory c - t_size trade < 0
      then (avgEntryPrice c * \<bar>currentInventory c\<bar> + t_price trade * t_size trade)
             / \<bar>currentInventory c - t_size trade\<bar>
      else avgEntryPrice c)"
  by (cases "t_side trade")
     (simp_all add: updateInventory_def updateAvgEntryPrice_def enforceInventoryLimits_def Let_def)

section \<open>Clamps and floors of the spread\<close>

lemma clamped_total_bounds:
  fixes x m M :: real
  assumes "m \<le> M"
  shows "m \<le> min (max x m) M" and "min (max x m) M \<le> M"
  using assms by simp_all

lemma skewed_floor_gt:
  fixes h m2 s :: real
  assumes "0 < m2" and "m2 \<le> h" and "0 < s"
  shows "max (h * (1 - s)) m2 < max (h * (1 + s)) m2"
proof -
  from assms have h: "0 < h" by simp
  with assms(3) have "0 < h * s" by simp
  then have up: "h < h * (1 + s)" and down: "h * (1 - s) < h"
    by (simp_all add: algebra_simps)
  from up assms(2) have "max (h * (1 + s)) m2 = h * (1 + s)" by simp
  moreover from down up assms(2) have "max (h * (1 - s)) m2 < h * (1 + s)" by simp
  ultimately show ?thesis by simp
qed

lemma unfloored_sum:
  fixes h m2 s :: real
  assumes "0 < m2" and "m2 \<le> h" and "m2 \<le> h * (1 - \<bar>s\<bar>)"
  shows "max (h * (1 + s)) m2 + max (h * (1 - s)) m2 = 2 * h"
proof -
  from assms have h: "0 < h" by simp
  have "- \<bar>s\<bar> \<le> s" and "s \<le> \<bar>s\<bar>" by simp_all
  with h have "h * (1 - \<bar>s\<bar>) \<le> h * (1 + s)" and "h * (1 - \<bar>s\<bar>) \<le> h * (1 - s)"
    by simp_all
  with assms(3) have "m2 \<le> h * (1 + s)" and "m2 \<le> h * (1 - s)" by simp_all
  then have "max (h * (1 + s)) m2 = h * (1 + s)" and "max (h * (1 - s)) m2 = h * (1 - s)"
    by simp_all
  then show ?thesis by (simp add: algebra_simps)
qed

lemma calculateOptimalSpread_eq:
  "calculateOptimalSpread cfg md st =
     \<lparr>bidSpread = max (totalSpread cfg md / 2 * (1 + calculateInventorySkew cfg st)) (minSpread cfg / 2),
      askSpread = max (totalSpread cfg md / 2 * (1 - calculateInventorySkew cfg st)) (minSpread cfg / 2)\<rparr>"
  by (simp add: calculateOptimalSpread_def totalSpread_def Let_def)

section \<open>The coordinator on a known order\<close>

text \<open>A partial fill of an active order: the order's entry is rewritten, the trade is
  appended to both histories, and inventory, average entry price and total volume move.\<close>

lemma processFill_known_order_example:
  "processFill ((newMarketMaker DEFAULT_CONFIG 0)
       \<lparr>activeOrders := [''o1'' \<mapsto> \<lparr>o_id = ''o1'', o_side = Buy, o_price = 149 / 100, o_size = 100,
                                   filledSize = 0, status = Pending, createdAt = 1, updatedAt = 1\<rparr>]\<rparr>)
       2 ''t1'' ''o1'' 50 (149 / 100)
     = ((newMarketMaker DEFAULT_CONFIG 0)
          \<lparr>activeOrders := [''o1'' \<mapsto> \<lparr>o_id = ''o1'', o_side = Buy, o_price = 149 / 100,
                                      o_size = 100, filledSize = 50, status = Partial,
                                      createdAt = 1, updatedAt = 2\<rparr>],
           inventoryController :=
             \<lparr>config = DEFAULT_INVENTORY_CONFIG, currentInventory = 50,
              tradeHistory = [\<lparr>t_id = ''t1'', t_side = Buy, t_price = 149 / 100, t_size = 50,
                               t_timestamp = 2, t_fee = 149 / 2000\<rparr>],
              avgEntryPrice = 149 / 100\<rparr>,
           mm_tradeHistory := [\<lparr>t_id = ''t1'', t_side = Buy, t_price = 149 / 100, t_size = 50,
                                t_timestamp = 2, t_fee = 149 / 2000\<rparr>],
           totalVolume := 149 / 2\<rparr>,
        None,
        Some \<lparr>t_id = ''t1'', t_side = Buy, t_price = 149 / 100, t_size = 50,
              t_timestamp = 2, t_fee = 149 / 2000\<rparr>)"
  by (simp add: processFill_def newMarketMaker_def updateInventory_def updateAvgEntryPrice_def
      enforceInventoryLimits_def updateRealizedPnL_def calculatePosition_def
      newInventoryController_def DEFAULT_CONFIG_def DEFAULT_INVENTORY_CONFIG_def Let_def)

section \<open>Properties of the liquidity pool\<close>

text \<open>
  C5. When the simulated output is below \<open>minAmountOut\<close>, \<open>executeSwap\<close> fails with the
  slippage error and returns the pool it was given: reserves, LP supply, fee and
  timestamp are all as before. Otherwise it returns the result of \<open>simulateSwap\<close> and
  moves the reserves by the input after fee and by the output.
\<close>

theorem executeSwap_slippage:
  assumes "simulateSwap p amount tokenIn = Inr r"
  shows "(amountOut r < minAmountOut \<longrightarrow>
            executeSwap p now amount tokenIn minAmountOut =
              (p, Inl (SlippageExceeded minAmountOut (amountOut r))))
       \<and> (minAmountOut \<le> amountOut r \<longrightarrow>
            snd (executeSwap p now amount tokenIn minAmountOut) = Inr r
          \<and> fst (executeSwap p now amount tokenIn minAmountOut) =
              (case tokenIn of
                 TokenA \<Rightarrow> p\<lparr>tokenAReserve := tokenAReserve p + (amount - swapFee r),
                              tokenBReserve := tokenBReserve p - amountOut r,
                              lastUpdate := now\<rparr>
               | TokenB \<Rightarrow> p\<lparr>tokenBReserve := tokenBReserve p + (amount - swapFee r),
                              tokenAReserve := tokenAReserve p - amountOut r,
                              lastUpdate := now\<rparr>))"
  using assms by (cases tokenIn) (simp_all add: executeSwap_def Let_def)

theorem executeSwap_slippage_witness:
  "simulateSwap \<lparr>tokenAReserve = 10, tokenBReserve = 20, lpTokenSupply = 5, fee = 1/2, lastUpdate = 0\<rparr> 20 TokenA
     = Inr \<lparr>amountIn = 20, amountOut = 10, priceImpact = 3/4, swapFee = 10, newPrice = 1/2\<rparr>
   \<and> executeSwap \<lparr>tokenAReserve = 10, tokenBReserve = 20, lpTokenSupply = 5, fee = 1/2, lastUpdate = 0\<rparr> 7 20 TokenA 11
     = (\<lparr>tokenAReserve = 10, tokenBReserve = 20, lpTokenSupply = 5, fee = 1/2, lastUpdate = 0\<rparr>,
        Inl (SlippageExceeded 11 10))
   \<and> executeSwap \<lparr>tokenAReserve = 10, tokenBReserve = 20, lpTokenSupply = 5, fee = 1/2, lastUpdate = 0\<rparr> 7 20 TokenA 5
     = (\<lparr>tokenAReserve = 20, tokenBReserve = 10, lpTokenSupply = 5, fee = 1/2, lastUpdate = 7\<rparr>,
        Inr \<lparr>amountIn = 20, amountOut = 10, priceImpact = 3/4, swapFee = 10, newPrice = 1/2\<rparr>)"
proof -
  let ?p = "\<lparr>tokenAReserve = 10, tokenBReserve = 20, lpTokenSupply = 5, fee = 1/2, lastUpdate = 0\<rparr>"
  let ?r = "\<lparr>amountIn = 20, amountOut = 10, priceImpact = 3/4, swapFee = 10, newPrice = 1/2\<rparr>"
  have s: "simulateSwap ?p 20 TokenA = Inr ?r"
    by (simp add: simulateSwap_def getSpotPrice_def Let_def)
  show ?thesis
    using s executeSwap_slippage [OF s, of 11 7] executeSwap_slippage [OF s, of 5 7]
    by (simp add: prod_eq_iff)
qed

text \<open>
  C9. For a pool with a positive reserve of token A and \<open>0 < lpTokens < lpTokenSupply\<close>,
  \<open>removeLiquidity\<close> succeeds, burns \<open>lpTokens\<close>, pays out the pro-rata share of each
  reserve, scales both reserves by \<open>1 - lpTokens / lpTokenSupply\<close> and leaves the spot price
  \<open>getPrice\<close> as it was.
\<close>

theorem removeLiquidity_price_unchanged:
  assumes "tokenAReserve p > 0" and "0 < lpTokens" and "lpTokens < lpTokenSupply p"
  shows "snd (removeLiquidity p now lpTokens) =
           Inr \<lparr>lpTokensBurned = lpTokens,
                tokenAReceived = tokenAReserve p * (lpTokens / lpTokenSupply p),
                tokenBReceived = tokenBReserve p * (lpTokens / lpTokenSupply p),
                removeFee = 0\<rparr>
       \<and> tokenAReserve (fst (removeLiquidity p now lpTokens)) =
           tokenAReserve p * (1 - lpTokens / lpTokenSupply p)
       \<and> tokenBReserve (fst (removeLiquidity p now lpTokens)) =
           tokenBReserve p * (1 - lpTokens / lpTokenSupply p)
       \<and> lpTokenSupply (fst (removeLiquidity p now lpTokens)) = lpTokenSupply p - lpTokens
       \<and> getPrice (fst (removeLiquidity p now lpTokens)) = getPrice p"
proof -
  define s where "s = lpTokens / lpTokenSupply p"
  from assms have sup: "0 < lpTokenSupply p" by simp
  with assms have s1: "0 < 1 - s" unfolding s_def by simp
  have a: "tokenAReserve p - tokenAReserve p * s = tokenAReserve p * (1 - s)"
    by (simp add: algebra_simps)
  have b: "tokenBReserve p - tokenBReserve p * s = tokenBReserve p * (1 - s)"
    by (simp add: algebra_simps)
  have ok: "\<not> (lpTokens \<le> 0 \<or> lpTokenSupply p < lpTokens)" using assms by simp
  have r: "removeLiquidity p now lpTokens =
      (p\<lparr>tokenAReserve := tokenAReserve p * (1 - s), tokenBReserve := tokenBReserve p * (1 - s),
         lpTokenSupply := lpTokenSupply p - lpTokens, lastUpdate := now\<rparr>,
       Inr \<lparr>lpTokensBurned = lpTokens, tokenAReceived = tokenAReserve p * s,
            tokenBReceived = tokenBReserve p * s, removeFee = 0\<rparr>)"
    unfolding removeLiquidity_def Let_def s_def [symmetric] a b using ok by simp
  have pr: "getPrice (fst (removeLiquidity p now lpTokens)) = getPrice p"
    unfolding r getPrice_def using assms(1) s1 by simp
  show ?thesis using pr unfolding r by (simp add: s_def)
qed

theorem removeLiquidity_price_unchanged_witness:
  "removeLiquidity \<lparr>tokenAReserve = 10000, tokenBReserve = 15000, lpTokenSupply = 2000,
                     fee = 3 / 1000, lastUpdate = 0\<rparr> 9 500
     = (\<lparr>tokenAReserve = 7500, tokenBReserve = 11250, lpTokenSupply = 1500,
          fee = 3 / 1000, lastUpdate = 9\<rparr>,
        Inr \<lparr>lpTokensBurned = 500, tokenAReceived = 2500, tokenBReceived = 3750, removeFee = 0\<rparr>)
   \<and> getPrice (fst (removeLiquidity \<lparr>tokenAReserve = 10000, tokenBReserve = 15000,
                     lpTokenSupply = 2000, fee = 3 / 1000, lastUpdate = 0\<rparr> 9 500)) = 3 / 2
   \<and> getPrice \<lparr>tokenAReserve = 10000, tokenBReserve = 15000, lpTokenSupply = 2000,
                     fee = 3 / 1000, lastUpdate = 0\<rparr> = 3 / 2"
  using removeLiquidity_price_unchanged [of "\<lparr>tokenAReserve = 10000, tokenBReserve = 15000,
                     lpTokenSupply = 2000, fee = 3 / 1000, lastUpdate = 0\<rparr>" 500 9]
  by (simp add: removeLiquidity_def getPrice_def Let_def)

text \<open>
  C8. For a pool with both reserves positive and a fee in \<open>[0, 1)\<close>, and every \<open>x > 0\<close>:
  \<open>getAmountOut x 'A'\<close> succeeds, and \<open>getAmountIn\<close> of its output for token B returns \<open>x\<close>
  exactly. The output is always below the reserve of B, so no bound on \<open>x\<close> is needed.
\<close>

theorem getAmountIn_getAmountOut_roundtrip:
  assumes "tokenAReserve p > 0" and "tokenBReserve p > 0"
      and "0 \<le> fee p" and "fee p < 1" and "x > 0"
  shows "(case getAmountOut p x TokenA of
            Inl e \<Rightarrow> Inl e
          | Inr y \<Rightarrow> getAmountIn p y TokenB) = Inr x"
proof -
  define xi where "xi = x - x * fee p"
  define y where "y = tokenBReserve p * xi / (tokenAReserve p + xi)"
  have "xi = x * (1 - fee p)" unfolding xi_def by (simp add: algebra_simps)
  with assms have xi: "0 < xi" by simp
  then have d: "0 < tokenAReserve p + xi" using assms(1) by simp
  have out: "getAmountOut p x TokenA = Inr y"
    using assms(5) swap_out_arith [OF d, of "tokenBReserve p"]
    by (simp add: getAmountOut_def simulateSwap_def Let_def xi_def [symmetric] y_def)
  have ypos: "0 < y" unfolding y_def using assms(2) xi d by simp
  have "tokenBReserve p * xi < tokenBReserve p * (tokenAReserve p + xi)"
    using assms(1,2) by simp
  then have ylt: "y < tokenBReserve p" unfolding y_def using d
    by (simp add: pos_divide_less_eq)
  have "getAmountIn p y TokenB =
          Inr (tokenAReserve p * y / ((tokenBReserve p - y) * (1 - fee p)))"
    using ypos ylt by (simp add: getAmountIn_def Let_def)
  also have "tokenAReserve p * y / ((tokenBReserve p - y) * (1 - fee p)) = xi / (1 - fee p)"
    unfolding y_def by (rule roundtrip_arith [OF assms(1,2) xi assms(4)])
  also have "xi / (1 - fee p) = x"
    unfolding xi_def using assms(4) by (simp add: field_simps)
  finally show ?thesis using out by simp
qed

theorem getAmountIn_getAmountOut_roundtrip_witness:
  "getAmountOut \<lparr>tokenAReserve = 10, tokenBReserve = 20, lpTokenSupply = 5,
                  fee = 1 / 2, lastUpdate = 0\<rparr> 20 TokenA = Inr 10
   \<and> getAmountIn \<lparr>tokenAReserve = 10, tokenBReserve = 20, lpTokenSupply = 5,
                  fee = 1 / 2, lastUpdate = 0\<rparr> 10 TokenB = Inr 20"
  using getAmountIn_getAmountOut_roundtrip [of "\<lparr>tokenAReserve = 10, tokenBReserve = 20,
                  lpTokenSupply = 5, fee = 1 / 2, lastUpdate = 0\<rparr>" 20]
  by (simp add: getAmountOut_def simulateSwap_def Let_def getSpotPrice_def)

text \<open>
  C1, as the code has it. \<open>executeSwap\<close> adds the input after fee to the reserve of the
  token paid in and sets the other reserve to \<open>k\<close> divided by that sum: the fee is not
  added to the pool. So for every successful swap whose new input reserve is not zero
  (it is positive whenever the reserves are positive and the fee is at most 1), the
  product of the reserves after the swap equals the product before it, for a positive
  fee as for a zero fee. The product is never below the old one and never strictly above it.
\<close>

theorem executeSwap_product_unchanged:
  assumes "executeSwap p now amount tokenIn minAmountOut = (p', Inr r)"
      and "(case tokenIn of TokenA \<Rightarrow> tokenAReserve p | TokenB \<Rightarrow> tokenBReserve p)
             + (amount - amount * fee p) \<noteq> 0"
  shows "tokenAReserve p' * tokenBReserve p' = tokenAReserve p * tokenBReserve p"
proof -
  from assms(1) have pos: "\<not> amount \<le> 0"
    by (auto simp: executeSwap_def simulateSwap_def split: if_splits)
  show ?thesis
  proof (cases tokenIn)
    case TokenA
    with assms(2) have nz: "tokenAReserve p + (amount - amount * fee p) \<noteq> 0" by simp
    from assms(1) pos TokenA have
      "p' = p\<lparr>tokenAReserve := tokenAReserve p + (amount - amount * fee p),
             tokenBReserve := tokenAReserve p * tokenBReserve p
                               / (tokenAReserve p + (amount - amount * fee p)),
             lastUpdate := now\<rparr>"
      by (auto simp: executeSwap_def simulateSwap_def Let_def split: if_splits)
    then show ?thesis using nz by simp
  next
    case TokenB
    with assms(2) have nz: "tokenBReserve p + (amount - amount * fee p) \<noteq> 0" by simp
    from assms(1) pos TokenB have
      "p' = p\<lparr>tokenBReserve := tokenBReserve p + (amount - amount * fee p),
             tokenAReserve := tokenAReserve p * tokenBReserve p
                               / (tokenBReserve p + (amount - amount * fee p)),
             lastUpdate := now\<rparr>"
      by (auto simp: executeSwap_def simulateSwap_def Let_def split: if_splits)
    then show ?thesis using nz by simp
  qed
qed

theorem executeSwap_product_unchanged_witness:
  "executeSwap \<lparr>tokenAReserve = 10000, tokenBReserve = 15000, lpTokenSupply = 2000,
                 fee = 3 / 1000, lastUpdate = 0\<rparr> 9 100 TokenA 145
     = (\<lparr>tokenAReserve = 100997 / 10, tokenBReserve = 1500000000 / 100997, lpTokenSupply = 2000,
          fee = 3 / 1000, lastUpdate = 9\<rparr>,
        Inr \<lparr>amountIn = 100, amountOut = 14955000 / 100997, priceImpact = 1297 / 100997,
             swapFee = 3 / 10, newPrice = 15000000000 / 10200394009\<rparr>)
   \<and> (100997 / 10) * (1500000000 / 100997) = (10000 :: real) * 15000"
proof -
  let ?p = "\<lparr>tokenAReserve = 10000, tokenBReserve = 15000, lpTokenSupply = 2000,
              fee = 3 / 1000, lastUpdate = 0 :: int\<rparr>"
  have e: "executeSwap ?p 9 100 TokenA 145
     = (\<lparr>tokenAReserve = 100997 / 10, tokenBReserve = 1500000000 / 100997, lpTokenSupply = 2000,
          fee = 3 / 1000, lastUpdate = 9\<rparr>,
        Inr \<lparr>amountIn = 100, amountOut = 14955000 / 100997, priceImpact = 1297 / 100997,
             swapFee = 3 / 10, newPrice = 15000000000 / 10200394009\<rparr>)"
    by (simp add: executeSwap_def simulateSwap_def getSpotPrice_def Let_def)
  show ?thesis using e executeSwap_product_unchanged [OF e] by simp
qed

text \<open>
  C1 as stated fails: with a fee of 1/4 the swap of 4000 A into the pool (1000, 2000)
  succeeds and the product of the reserves does not increase (it stays 2000000).
\<close>

theorem executeSwap_product_counterexample:
  "fee \<lparr>tokenAReserve = 1000, tokenBReserve = 2000, lpTokenSupply = 400,
         fee = 1 / 4, lastUpdate = 0\<rparr> > 0
   \<and> executeSwap \<lparr>tokenAReserve = 1000, tokenBReserve = 2000, lpTokenSupply = 400,
                 fee = 1 / 4, lastUpdate = 0\<rparr> 9 4000 TokenA 0
     = (\<lparr>tokenAReserve = 4000, tokenBReserve = 500, lpTokenSupply = 400,
          fee = 1 / 4, lastUpdate = 9\<rparr>,
        Inr \<lparr>amountIn = 4000, amountOut = 1500, priceImpact = 13 / 16,
             swapFee = 1000, newPrice = 1 / 8\<rparr>)
   \<and> \<not> (tokenAReserve (fst (executeSwap \<lparr>tokenAReserve = 1000, tokenBReserve = 2000,
                 lpTokenSupply = 400, fee = 1 / 4, lastUpdate = 0\<rparr> 9 4000 TokenA 0))
          * tokenBReserve (fst (executeSwap \<lparr>tokenAReserve = 1000, tokenBReserve = 2000,
                 lpTokenSupply = 400, fee = 1 / 4, lastUpdate = 0\<rparr> 9 4000 TokenA 0))
          > 1000 * 2000)"
  by (simp add: executeSwap_def simulateSwap_def getSpotPrice_def Let_def)

text \<open>
  C6, with the number of the example corrected. \<open>initialize\<close> fails exactly when the pool
  already holds LP supply, or an amount is not positive, or \<open>sqrt (a * b) < 1000\<close>, and a
  failed call leaves the pool as it was. On success the LP tokens granted and the LP
  supply are both \<open>sqrt (a * b) - 1000\<close>. A new pool initialised with (10000, 15000) has
  price 1.5 and LP supply \<open>sqrt 150000000 - 1000\<close>, which lies between 11247.4 and 11247.5.
\<close>

theorem initialize_spec:
  "(isl (snd (initialize p now a b)) \<longleftrightarrow>
      (lpTokenSupply p > 0 \<or> a \<le> 0 \<or> b \<le> 0 \<or> sqrt (a * b) < 1000))
   \<and> (isl (snd (initialize p now a b)) \<longrightarrow> fst (initialize p now a b) = p)
   \<and> (\<not> isl (snd (initialize p now a b)) \<longrightarrow>
        lpTokensReceived (projr (snd (initialize p now a b))) = sqrt (a * b) - 1000
      \<and> lpTokenSupply (fst (initialize p now a b)) = sqrt (a * b) - 1000)
   \<and> getPrice (fst (initialize (newLiquidityPool f t0) now 10000 15000)) = 3 / 2
   \<and> lpTokenSupply (fst (initialize (newLiquidityPool f t0) now 10000 15000))
        = sqrt 150000000 - 1000
   \<and> 112474 / 10 < lpTokenSupply (fst (initialize (newLiquidityPool f t0) now 10000 15000))
   \<and> lpTokenSupply (fst (initialize (newLiquidityPool f t0) now 10000 15000)) < 112475 / 10"
proof -
  have "\<not> isl (snd (initialize p now a b)) \<longrightarrow>
        lpTokensReceived (projr (snd (initialize p now a b))) = sqrt (a * b) - 1000
      \<and> lpTokenSupply (fst (initialize p now a b)) = sqrt (a * b) - 1000"
    using initialize_success [of p now a b] by auto
  moreover have "getPrice (fst (initialize (newLiquidityPool f t0) now 10000 15000)) = 3 / 2"
    unfolding initialize_example by (simp add: getPrice_def)
  moreover have "lpTokenSupply (fst (initialize (newLiquidityPool f t0) now 10000 15000))
        = sqrt 150000000 - 1000"
    unfolding initialize_example by simp
  ultimately show ?thesis
    using initialize_failure [of p now a b] initialize_failure_state [of p now a b]
      sqrt_150000000_bounds
    by simp
qed

theorem initialize_spec_witness:
  "initialize (newLiquidityPool (3 / 1000) 0) 5 0 15000
     = (newLiquidityPool (3 / 1000) 0, Inl InvalidInitialLiquidityAmounts)
   \<and> \<not> isl (snd (initialize (newLiquidityPool (3 / 1000) 0) 5 10000 15000))
   \<and> lpTokensReceived (projr (snd (initialize (newLiquidityPool (3 / 1000) 0) 5 10000 15000)))
       = sqrt 150000000 - 1000
   \<and> lpTokenSupply (fst (initialize (newLiquidityPool (3 / 1000) 0) 5 10000 15000))
       = sqrt 150000000 - 1000"
proof -
  have f: "initialize (newLiquidityPool (3 / 1000) 0) 5 0 15000
     = (newLiquidityPool (3 / 1000) 0, Inl InvalidInitialLiquidityAmounts)"
    by (simp add: initialize_def newLiquidityPool_def)
  have s: "\<not> isl (snd (initialize (newLiquidityPool (3 / 1000) 0) 5 10000 15000))"
    unfolding initialize_example by simp
  show ?thesis
    using f s initialize_spec [of "newLiquidityPool (3 / 1000) 0" 5 0 15000]
      initialize_spec [of "newLiquidityPool (3 / 1000) 0" 5 10000 15000]
    by simp
qed

text \<open>
  C6 as stated gives the LP supply of the example as about 11246.9; the supply the code
  computes differs from that number by more than 1/2.
\<close>

theorem initialize_example_counterexample:
  "\<not> \<bar>lpTokenSupply (fst (initialize (newLiquidityPool (3 / 1000) 0) 5 10000 15000))
        - 112469 / 10\<bar> \<le> 1 / 2"
  unfolding initialize_example using sqrt_150000000_bounds by simp

section \<open>Properties of the inventory controller\<close>

text \<open>
  C2. Let \<open>moved\<close> be the inventory once the trade is applied: the old inventory plus the
  size for a buy, minus the size for a sell. With \<open>minInventory \<le> maxInventory\<close>, for every
  trade of either side and any size, \<open>updateInventory\<close> stores \<open>maxInventory\<close> when \<open>moved\<close> is
  above it, \<open>minInventory\<close> when \<open>moved\<close> is below it, and \<open>moved\<close> itself otherwise: the
  clamp of \<open>moved\<close> to \<open>[minInventory, maxInventory]\<close>, which lies in that interval. An
  overshoot is capped at the limit it crossed and reported as a warning that carries
  \<open>moved\<close> and the limit; nothing is thrown (the function is total), and the configuration
  is unchanged.
\<close>

theorem updateInventory_within_limits:
  assumes "minInventory (config c) \<le> maxInventory (config c)"
  shows "currentInventory (fst (updateInventory c trade)) =
           (if movedInventory c trade > maxInventory (config c) then maxInventory (config c)
            else if movedInventory c trade < minInventory (config c) then minInventory (config c)
            else movedInventory c trade)
       \<and> currentInventory (fst (updateInventory c trade)) =
           max (minInventory (config c)) (min (maxInventory (config c)) (movedInventory c trade))
       \<and> snd (updateInventory c trade) =
           (if movedInventory c trade > maxInventory (config c)
            then Some (InventoryExceededMax (movedInventory c trade) (maxInventory (config c)))
            else if movedInventory c trade < minInventory (config c)
            then Some (InventoryBelowMin (movedInventory c trade) (minInventory (config c)))
            else None)
       \<and> minInventory (config c) \<le> currentInventory (fst (updateInventory c trade))
       \<and> currentInventory (fst (updateInventory c trade)) \<le> maxInventory (config c)
       \<and> config (fst (updateInventory c trade)) = config c"
proof -
  define m where "m = movedInventory c trade"
  define lo where "lo = minInventory (config c)"
  define hi where "hi = maxInventory (config c)"
  have le: "lo \<le> hi" using assms by (simp add: lo_def hi_def)
  have stored: "currentInventory (fst (updateInventory c trade)) =
                  (if m > hi then hi else if m < lo then lo else m)"
    unfolding m_def lo_def hi_def by (rule updateInventory_stored)
  have warned: "snd (updateInventory c trade) =
                  (if m > hi then Some (InventoryExceededMax m hi)
                   else if m < lo then Some (InventoryBelowMin m lo)
                   else None)"
    unfolding m_def lo_def hi_def by (rule updateInventory_warning)
  have clamp: "(if m > hi then hi else if m < lo then lo else m) = max lo (min hi m)"
    using le by (simp add: max_def min_def)
  have range: "lo \<le> (if m > hi then hi else if m < lo then lo else m)"
              "(if m > hi then hi else if m < lo then lo else m) \<le> hi"
    using le by simp_all
  have cfg: "config (fst (updateInventory c trade)) = config c"
    by (rule updateInventory_config)
  show ?thesis
    unfolding stored warned m_def [symmetric] lo_def [symmetric] hi_def [symmetric]
    using clamp range cfg by simp
qed

theorem updateInventory_within_limits_witness:
  "minInventory (config (newInventoryController DEFAULT_INVENTORY_CONFIG))
     \<le> maxInventory (config (newInventoryController DEFAULT_INVENTORY_CONFIG))
   \<and> updateInventory (newInventoryController DEFAULT_INVENTORY_CONFIG)
        \<lparr>t_id = ''t1'', t_side = Buy, t_price = 3 / 2, t_size = 1200, t_timestamp = 1, t_fee = 0\<rparr>
     = (\<lparr>config = DEFAULT_INVENTORY_CONFIG, currentInventory = 1000,
          tradeHistory = [\<lparr>t_id = ''t1'', t_side = Buy, t_price = 3 / 2, t_size = 1200,
                           t_timestamp = 1, t_fee = 0\<rparr>],
          avgEntryPrice = 3 / 2\<rparr>,
        Some (InventoryExceededMax 1200 1000))
   \<and> currentInventory (fst (updateInventory (newInventoryController DEFAULT_INVENTORY_CONFIG)
        \<lparr>t_id = ''t2'', t_side = Sell, t_price = 3 / 2, t_size = 1200, t_timestamp = 1,
         t_fee = 0\<rparr>)) = - 1000
   \<and> snd (updateInventory (newInventoryController DEFAULT_INVENTORY_CONFIG)
        \<lparr>t_id = ''t2'', t_side = Sell, t_price = 3 / 2, t_size = 1200, t_timestamp = 1,
         t_fee = 0\<rparr>) = Some (InventoryBelowMin (- 1200) (- 1000))
   \<and> currentInventory (fst (updateInventory (newInventoryController DEFAULT_INVENTORY_CONFIG)
        \<lparr>t_id = ''t3'', t_side = Sell, t_price = 3 / 2, t_size = 300, t_timestamp = 1,
         t_fee = 0\<rparr>)) = - 300
   \<and> snd (updateInventory (newInventoryController DEFAULT_INVENTORY_CONFIG)
        \<lparr>t_id = ''t3'', t_side = Sell, t_price = 3 / 2, t_size = 300, t_timestamp = 1,
         t_fee = 0\<rparr>) = None"
proof -
  have c: "minInventory (config (newInventoryController DEFAULT_INVENTORY_CONFIG))
             \<le> maxInventory (config (newInventoryController DEFAULT_INVENTORY_CONFIG))"
    by (simp add: newInventoryController_def DEFAULT_INVENTORY_CONFIG_def)
  have over: "updateInventory (newInventoryController DEFAULT_INVENTORY_CONFIG)
        \<lparr>t_id = ''t1'', t_side = Buy, t_price = 3 / 2, t_size = 1200, t_timestamp = 1, t_fee = 0\<rparr>
     = (\<lparr>config = DEFAULT_INVENTORY_CONFIG, currentInventory = 1000,
          tradeHistory = [\<lparr>t_id = ''t1'', t_side = Buy, t_price = 3 / 2, t_size = 1200,
                           t_timestamp = 1, t_fee = 0\<rparr>],
          avgEntryPrice = 3 / 2\<rparr>,
        Some (InventoryExceededMax 1200 1000))"
    by (simp add: updateInventory_def updateAvgEntryPrice_def enforceInventoryLimits_def
        newInventoryController_def DEFAULT_INVENTORY_CONFIG_def Let_def)
  show ?thesis
    using c over
      updateInventory_within_limits [OF c, of
        "\<lparr>t_id = ''t1'', t_side = Buy, t_price = 3 / 2, t_size = 1200, t_timestamp = 1, t_fee = 0\<rparr>"]
      updateInventory_within_limits [OF c, of
        "\<lparr>t_id = ''t2'', t_side = Sell, t_price = 3 / 2, t_size = 1200, t_timestamp = 1, t_fee = 0\<rparr>"]
      updateInventory_within_limits [OF c, of
        "\<lparr>t_id = ''t3'', t_side = Sell, t_price = 3 / 2, t_size = 300, t_timestamp = 1, t_fee = 0\<rparr>"]
    by (simp add: movedInventory_def newInventoryController_def DEFAULT_INVENTORY_CONFIG_def)
qed

text \<open>
  C7 at a buy that takes a short position through zero. From a new controller, a sell
  of 5 at price 10 leaves inventory -5 and average 10; the buy of 10 at price 12 that
  follows leaves inventory 5 and stores the average (10 * (-5) + 12 * 10) / 5 = 14. The
  size-weighted average over magnitudes, which the sell branch computes with
  \<open>Math.abs\<close>, would be (10 * 5 + 12 * 10) / 5 = 34.
\<close>

theorem updateAvgEntryPrice_buy_through_zero:
  "updateInventory (newInventoryController DEFAULT_INVENTORY_CONFIG)
        \<lparr>t_id = ''t1'', t_side = Sell, t_price = 10, t_size = 5, t_timestamp = 1, t_fee = 0\<rparr>
     = (\<lparr>config = DEFAULT_INVENTORY_CONFIG, currentInventory = - 5,
          tradeHistory = [\<lparr>t_id = ''t1'', t_side = Sell, t_price = 10, t_size = 5,
                           t_timestamp = 1, t_fee = 0\<rparr>],
          avgEntryPrice = 10\<rparr>, None)
   \<and> updateInventory \<lparr>config = DEFAULT_INVENTORY_CONFIG, currentInventory = - 5,
          tradeHistory = [\<lparr>t_id = ''t1'', t_side = Sell, t_price = 10, t_size = 5,
                           t_timestamp = 1, t_fee = 0\<rparr>],
          avgEntryPrice = 10\<rparr>
        \<lparr>t_id = ''t2'', t_side = Buy, t_price = 12, t_size = 10, t_timestamp = 2, t_fee = 0\<rparr>
     = (\<lparr>config = DEFAULT_INVENTORY_CONFIG, currentInventory = 5,
          tradeHistory = [\<lparr>t_id = ''t1'', t_side = Sell, t_price = 10, t_size = 5,
                           t_timestamp = 1, t_fee = 0\<rparr>,
                          \<lparr>t_id = ''t2'', t_side = Buy, t_price = 12, t_size = 10,
                           t_timestamp = 2, t_fee = 0\<rparr>],
          avgEntryPrice = 14\<rparr>, None)
   \<and> (10 * \<bar>- 5\<bar> + 12 * 10) / \<bar>5\<bar> = (34 :: real)"
  by (simp add: updateInventory_def updateAvgEntryPrice_def enforceInventoryLimits_def
      newInventoryController_def DEFAULT_INVENTORY_CONFIG_def Let_def)

section \<open>Properties of the spread calculator\<close>

text \<open>
  C3, for the configurations where it holds, in exact arithmetic (the formulas of
  \<open>calculateOptimalSpread\<close> evaluated over the reals, without the rounding of doubles).
  With \<open>0 < minSpread \<le> maxSpread\<close> and a positive \<open>inventorySkewMultiplier\<close>: an
  inventory ratio above 1/2 gives \<open>bidSpread > askSpread\<close>, a ratio below 1/2 gives
  \<open>askSpread > bidSpread\<close>, and a ratio of 1/2 gives equal spreads. Rounding is outside
  this statement: in doubles a ratio within one unit in the last place of 1/2 can round
  \<open>1 + skew\<close> and \<open>1 - skew\<close> to the same number.
\<close>

theorem calculateOptimalSpread_skew_sign:
  assumes "0 < minSpread cfg" and "minSpread cfg \<le> maxSpread cfg"
      and "0 < inventorySkewMultiplier cfg"
  shows "(inventoryRatio st > 1 / 2 \<longrightarrow>
            bidSpread (calculateOptimalSpread cfg md st) > askSpread (calculateOptimalSpread cfg md st))
       \<and> (inventoryRatio st < 1 / 2 \<longrightarrow>
            askSpread (calculateOptimalSpread cfg md st) > bidSpread (calculateOptimalSpread cfg md st))
       \<and> (inventoryRatio st = 1 / 2 \<longrightarrow>
            bidSpread (calculateOptimalSpread cfg md st) = askSpread (calculateOptimalSpread cfg md st))"
proof -
  define h where "h = totalSpread cfg md / 2"
  define s where "s = calculateInventorySkew cfg st"
  define m2 where "m2 = minSpread cfg / 2"
  have m2: "0 < m2" using assms(1) by (simp add: m2_def)
  have "minSpread cfg \<le> totalSpread cfg md"
    unfolding totalSpread_def by (rule clamped_total_bounds(1) [OF assms(2)])
  then have hm: "m2 \<le> h" by (simp add: h_def m2_def)
  have r: "bidSpread (calculateOptimalSpread cfg md st) = max (h * (1 + s)) m2"
          "askSpread (calculateOptimalSpread cfg md st) = max (h * (1 - s)) m2"
    by (simp_all add: calculateOptimalSpread_eq h_def s_def m2_def)
  have sdef: "s = (inventoryRatio st - 1 / 2) * inventorySkewMultiplier cfg * 2"
    by (simp add: s_def calculateInventorySkew_def)
  have long: "bidSpread (calculateOptimalSpread cfg md st) > askSpread (calculateOptimalSpread cfg md st)"
    if "inventoryRatio st > 1 / 2"
  proof -
    from that assms(3) have "0 < s" unfolding sdef by simp
    from skewed_floor_gt [OF m2 hm this] show ?thesis unfolding r .
  qed
  have short: "askSpread (calculateOptimalSpread cfg md st) > bidSpread (calculateOptimalSpread cfg md st)"
    if "inventoryRatio st < 1 / 2"
  proof -
    from that assms(3) have "0 < (1 / 2 - inventoryRatio st) * inventorySkewMultiplier cfg" by simp
    then have "0 < - s" unfolding sdef by (simp add: algebra_simps)
    from skewed_floor_gt [OF m2 hm this] show ?thesis unfolding r by simp
  qed
  have flat: "bidSpread (calculateOptimalSpread cfg md st) = askSpread (calculateOptimalSpread cfg md st)"
    if "inventoryRatio st = 1 / 2"
  proof -
    from that have "inventoryRatio st - 1 / 2 = 0" by simp
    then have "s = 0" unfolding sdef by (simp only: mult_zero_left)
    then show ?thesis unfolding r by simp
  qed
  from long short flat show ?thesis by blast
qed

theorem calculateOptimalSpread_skew_sign_witness:
  "bidSpread (calculateOptimalSpread DEFAULT_SPREAD_CONFIG
       \<lparr>symbol = ''TOKEN/USDC'', lastPrice = 3 / 2, bidPrice = 149 / 100, askPrice = 151 / 100,
        volume24h = 999999, high24h = 16 / 10, low24h = 14 / 10, volatility = 5 / 100\<rparr>
       \<lparr>s_currentInventory = 500, s_targetInventory = 0, inventoryRatio = 3 / 4, skewFactor = 0,
        s_maxInventory = 1000, s_minInventory = - 1000\<rparr>) = 1 / 80
   \<and> askSpread (calculateOptimalSpread DEFAULT_SPREAD_CONFIG
       \<lparr>symbol = ''TOKEN/USDC'', lastPrice = 3 / 2, bidPrice = 149 / 100, askPrice = 151 / 100,
        volume24h = 999999, high24h = 16 / 10, low24h = 14 / 10, volatility = 5 / 100\<rparr>
       \<lparr>s_currentInventory = 500, s_targetInventory = 0, inventoryRatio = 3 / 4, skewFactor = 0,
        s_maxInventory = 1000, s_minInventory = - 1000\<rparr>) = 3 / 400
   \<and> bidSpread (calculateOptimalSpread DEFAULT_SPREAD_CONFIG
       \<lparr>symbol = ''TOKEN/USDC'', lastPrice = 3 / 2, bidPrice = 149 / 100, askPrice = 151 / 100,
        volume24h = 999999, high24h = 16 / 10, low24h = 14 / 10, volatility = 5 / 100\<rparr>
       \<lparr>s_currentInventory = - 500, s_targetInventory = 0, inventoryRatio = 1 / 4, skewFactor = 0,
        s_maxInventory = 1000, s_minInventory = - 1000\<rparr>) = 3 / 400
   \<and> askSpread (calculateOptimalSpread DEFAULT_SPREAD_CONFIG
       \<lparr>symbol = ''TOKEN/USDC'', lastPrice = 3 / 2, bidPrice = 149 / 100, askPrice = 151 / 100,
        volume24h = 999999, high24h = 16 / 10, low24h = 14 / 10, volatility = 5 / 100\<rparr>
       \<lparr>s_currentInventory = - 500, s_targetInventory = 0, inventoryRatio = 1 / 4, skewFactor = 0,
        s_maxInventory = 1000, s_minInventory = - 1000\<rparr>) = 1 / 80
   \<and> bidSpread (calculateOptimalSpread DEFAULT_SPREAD_CONFIG
       \<lparr>symbol = ''TOKEN/USDC'', lastPrice = 3 / 2, bidPrice = 149 / 100, askPrice = 151 / 100,
        volume24h = 999999, high24h = 16 / 10, low24h = 14 / 10, volatility = 5 / 100\<rparr>
       \<lparr>s_currentInventory = 0, s_targetInventory = 0, inventoryRatio = 1 / 2, skewFactor = 0,
        s_maxInventory = 1000, s_minInventory = - 1000\<rparr>) = 1 / 100
   \<and> askSpread (calculateOptimalSpread DEFAULT_SPREAD_CONFIG
       \<lparr>symbol = ''TOKEN/USDC'', lastPrice = 3 / 2, bidPrice = 149 / 100, askPrice = 151 / 100,
        volume24h = 999999, high24h = 16 / 10, low24h = 14 / 10, volatility = 5 / 100\<rparr>
       \<lparr>s_currentInventory = 0, s_targetInventory = 0, inventoryRatio = 1 / 2, skewFactor = 0,
        s_maxInventory = 1000, s_minInventory = - 1000\<rparr>) = 1 / 100"
proof -
  let ?md = "\<lparr>symbol = ''TOKEN/USDC'', lastPrice = 3 / 2, bidPrice = 149 / 100, askPrice = 151 / 100,
        volume24h = 999999, high24h = 16 / 10, low24h = 14 / 10, volatility = 5 / 100\<rparr>"
  let ?long = "\<lparr>s_currentInventory = 500, s_targetInventory = 0, inventoryRatio = 3 / 4,
        skewFactor = 0, s_maxInventory = 1000, s_minInventory = - 1000\<rparr>"
  let ?short = "\<lparr>s_currentInventory = - 500, s_targetInventory = 0, inventoryRatio = 1 / 4,
        skewFactor = 0, s_maxInventory = 1000, s_minInventory = - 1000\<rparr>"
  let ?flat = "\<lparr>s_currentInventory = 0, s_targetInventory = 0, inventoryRatio = 1 / 2,
        skewFactor = 0, s_maxInventory = 1000, s_minInventory = - 1000\<rparr>"
  have c: "0 < minSpread DEFAULT_SPREAD_CONFIG"
          "minSpread DEFAULT_SPREAD_CONFIG \<le> maxSpread DEFAULT_SPREAD_CONFIG"
          "0 < inventorySkewMultiplier DEFAULT_SPREAD_CONFIG"
    by (simp_all add: DEFAULT_SPREAD_CONFIG_def)
  show ?thesis
    using calculateOptimalSpread_skew_sign [OF c, of ?long ?md]
      calculateOptimalSpread_skew_sign [OF c, of ?short ?md]
      calculateOptimalSpread_skew_sign [OF c, of ?flat ?md]
    by (simp add: calculateOptimalSpread_def calculateBaseSpread_def
        calculateVolatilityAdjustment_def calculateInventorySkew_def
        DEFAULT_SPREAD_CONFIG_def Let_def)
qed

text \<open>
  C3 as stated fails: with \<open>inventorySkewMultiplier = 0\<close> (and \<open>minSpread > 0\<close>) the skew
  is zero, and at inventory ratio 1 the bid spread is not above the ask spread. It also
  fails with the default multiplier when \<open>maxSpread < minSpread\<close>: with \<open>minSpread = 0.02\<close>
  and \<open>maxSpread = 0.01\<close> both spreads sit on the floor 0.01 at inventory ratio 3/4.
\<close>

theorem calculateOptimalSpread_skew_sign_counterexample:
  "0 < minSpread (DEFAULT_SPREAD_CONFIG\<lparr>inventorySkewMultiplier := 0\<rparr>)
   \<and> inventoryRatio \<lparr>s_currentInventory = 1000, s_targetInventory = 0, inventoryRatio = 1,
        skewFactor = 0, s_maxInventory = 1000, s_minInventory = - 1000\<rparr> > 1 / 2
   \<and> \<not> bidSpread (calculateOptimalSpread (DEFAULT_SPREAD_CONFIG\<lparr>inventorySkewMultiplier := 0\<rparr>)
       \<lparr>symbol = ''TOKEN/USDC'', lastPrice = 3 / 2, bidPrice = 149 / 100, askPrice = 151 / 100,
        volume24h = 999999, high24h = 16 / 10, low24h = 14 / 10, volatility = 5 / 100\<rparr>
       \<lparr>s_currentInventory = 1000, s_targetInventory = 0, inventoryRatio = 1, skewFactor = 0,
        s_maxInventory = 1000, s_minInventory = - 1000\<rparr>)
     > askSpread (calculateOptimalSpread (DEFAULT_SPREAD_CONFIG\<lparr>inventorySkewMultiplier := 0\<rparr>)
       \<lparr>symbol = ''TOKEN/USDC'', lastPrice = 3 / 2, bidPrice = 149 / 100, askPrice = 151 / 100,
        volume24h = 999999, high24h = 16 / 10, low24h = 14 / 10, volatility = 5 / 100\<rparr>
       \<lparr>s_currentInventory = 1000, s_targetInventory = 0, inventoryRatio = 1, skewFactor = 0,
        s_maxInventory = 1000, s_minInventory = - 1000\<rparr>)
   \<and> 0 < minSpread (DEFAULT_SPREAD_CONFIG\<lparr>minSpread := 2 / 100, maxSpread := 1 / 100\<rparr>)
   \<and> inventoryRatio \<lparr>s_currentInventory = 500, s_targetInventory = 0, inventoryRatio = 3 / 4,
        skewFactor = 0, s_maxInventory = 1000, s_minInventory = - 1000\<rparr> > 1 / 2
   \<and> \<not> bidSpread (calculateOptimalSpread
         (DEFAULT_SPREAD_CONFIG\<lparr>minSpread := 2 / 100, maxSpread := 1 / 100\<rparr>)
       \<lparr>symbol = ''TOKEN/USDC'', lastPrice = 3 / 2, bidPrice = 149 / 100, askPrice = 151 / 100,
        volume24h = 999999, high24h = 16 / 10, low24h = 14 / 10, volatility = 5 / 100\<rparr>
       \<lparr>s_currentInventory = 500, s_targetInventory = 0, inventoryRatio = 3 / 4, skewFactor = 0,
        s_maxInventory = 1000, s_minInventory = - 1000\<rparr>)
     > askSpread (calculateOptimalSpread
         (DEFAULT_SPREAD_CONFIG\<lparr>minSpread := 2 / 100, maxSpread := 1 / 100\<rparr>)
       \<lparr>symbol = ''TOKEN/USDC'', lastPrice = 3 / 2, bidPrice = 149 / 100, askPrice = 151 / 100,
        volume24h = 999999, high24h = 16 / 10, low24h = 14 / 10, volatility = 5 / 100\<rparr>
       \<lparr>s_currentInventory = 500, s_targetInventory = 0, inventoryRatio = 3 / 4, skewFactor = 0,
        s_maxInventory = 1000, s_minInventory = - 1000\<rparr>)"
  by (simp add: calculateOptimalSpread_def calculateBaseSpread_def
      calculateVolatilityAdjustment_def calculateInventorySkew_def
      DEFAULT_SPREAD_CONFIG_def Let_def)

text \<open>
  C4, for the quotes where it holds, in exact arithmetic (the formulas of
  \<open>calculateOptimalSpread\<close> evaluated over the reals, without the rounding of doubles).
  With \<open>0 < minSpread \<le> maxSpread\<close>, both spreads are at least \<open>minSpread / 2\<close>. When
  neither floor binds, that is when \<open>minSpread \<le> totalSpread * (1 - \<bar>skew\<bar>)\<close>, the two
  spreads add up to the clamped total spread, which is at most \<open>maxSpread\<close>. Rounding is
  outside this statement: in doubles the two products can each round up, and their sum
  can exceed the total by a unit in the last place.
\<close>

theorem calculateOptimalSpread_bounds:
  assumes "0 < minSpread cfg" and "minSpread cfg \<le> maxSpread cfg"
  shows "minSpread cfg / 2 \<le> bidSpread (calculateOptimalSpread cfg md st)
       \<and> minSpread cfg / 2 \<le> askSpread (calculateOptimalSpread cfg md st)
       \<and> (minSpread cfg \<le> totalSpread cfg md * (1 - \<bar>calculateInventorySkew cfg st\<bar>) \<longrightarrow>
            bidSpread (calculateOptimalSpread cfg md st) + askSpread (calculateOptimalSpread cfg md st)
              = totalSpread cfg md
          \<and> bidSpread (calculateOptimalSpread cfg md st) + askSpread (calculateOptimalSpread cfg md st)
              \<le> maxSpread cfg)"
proof -
  define h where "h = totalSpread cfg md / 2"
  define s where "s = calculateInventorySkew cfg st"
  define m2 where "m2 = minSpread cfg / 2"
  have m2: "0 < m2" using assms(1) by (simp add: m2_def)
  have "minSpread cfg \<le> totalSpread cfg md"
    unfolding totalSpread_def by (rule clamped_total_bounds(1) [OF assms(2)])
  then have hm: "m2 \<le> h" by (simp add: h_def m2_def)
  have top: "totalSpread cfg md \<le> maxSpread cfg"
    unfolding totalSpread_def by (rule clamped_total_bounds(2) [OF assms(2)])
  have r: "bidSpread (calculateOptimalSpread cfg md st) = max (h * (1 + s)) m2"
          "askSpread (calculateOptimalSpread cfg md st) = max (h * (1 - s)) m2"
    by (simp_all add: calculateOptimalSpread_eq h_def s_def m2_def)
  have floors: "m2 \<le> max (h * (1 + s)) m2" "m2 \<le> max (h * (1 - s)) m2" by simp_all
  have sum: "max (h * (1 + s)) m2 + max (h * (1 - s)) m2 = totalSpread cfg md"
    if "minSpread cfg \<le> totalSpread cfg md * (1 - \<bar>s\<bar>)"
  proof -
    from that have "m2 \<le> h * (1 - \<bar>s\<bar>)" by (simp add: m2_def h_def)
    from unfloored_sum [OF m2 hm this] show ?thesis by (simp add: h_def)
  qed
  show ?thesis
    unfolding r using floors sum top
    by (simp add: m2_def [symmetric] s_def [symmetric])
qed

theorem calculateOptimalSpread_bounds_witness:
  "bidSpread (calculateOptimalSpread DEFAULT_SPREAD_CONFIG
       \<lparr>symbol = ''TOKEN/USDC'', lastPrice = 3 / 2, bidPrice = 149 / 100, askPrice = 151 / 100,
        volume24h = 999999, high24h = 16 / 10, low24h = 14 / 10, volatility = 5 / 100\<rparr>
       \<lparr>s_currentInventory = 1000, s_targetInventory = 0, inventoryRatio = 1, skewFactor = 0,
        s_maxInventory = 1000, s_minInventory = - 1000\<rparr>) = 3 / 200
   \<and> askSpread (calculateOptimalSpread DEFAULT_SPREAD_CONFIG
       \<lparr>symbol = ''TOKEN/USDC'', lastPrice = 3 / 2, bidPrice = 149 / 100, askPrice = 151 / 100,
        volume24h = 999999, high24h = 16 / 10, low24h = 14 / 10, volatility = 5 / 100\<rparr>
       \<lparr>s_currentInventory = 1000, s_targetInventory = 0, inventoryRatio = 1, skewFactor = 0,
        s_maxInventory = 1000, s_minInventory = - 1000\<rparr>) = 1 / 200
   \<and> totalSpread DEFAULT_SPREAD_CONFIG
       \<lparr>symbol = ''TOKEN/USDC'', lastPrice = 3 / 2, bidPrice = 149 / 100, askPrice = 151 / 100,
        volume24h = 999999, high24h = 16 / 10, low24h = 14 / 10, volatility = 5 / 100\<rparr> = 2 / 100
   \<and> minSpread DEFAULT_SPREAD_CONFIG = 5 / 10000
   \<and> maxSpread DEFAULT_SPREAD_CONFIG = 2 / 100
   \<and> calculateInventorySkew DEFAULT_SPREAD_CONFIG
       \<lparr>s_currentInventory = 1000, s_targetInventory = 0, inventoryRatio = 1, skewFactor = 0,
        s_maxInventory = 1000, s_minInventory = - 1000\<rparr> = 1 / 2"
proof -
  let ?md = "\<lparr>symbol = ''TOKEN/USDC'', lastPrice = 3 / 2, bidPrice = 149 / 100, askPrice = 151 / 100,
        volume24h = 999999, high24h = 16 / 10, low24h = 14 / 10, volatility = 5 / 100\<rparr>"
  let ?st = "\<lparr>s_currentInventory = 1000, s_targetInventory = 0, inventoryRatio = 1,
        skewFactor = 0, s_maxInventory = 1000, s_minInventory = - 1000\<rparr>"
  have c: "0 < minSpread DEFAULT_SPREAD_CONFIG"
          "minSpread DEFAULT_SPREAD_CONFIG \<le> maxSpread DEFAULT_SPREAD_CONFIG"
    by (simp_all add: DEFAULT_SPREAD_CONFIG_def)
  show ?thesis
    using calculateOptimalSpread_bounds [OF c, of ?md ?st]
    by (simp add: calculateOptimalSpread_def totalSpread_def calculateBaseSpread_def
        calculateVolatilityAdjustment_def calculateInventorySkew_def
        DEFAULT_SPREAD_CONFIG_def Let_def)
qed

text \<open>
  C4 as stated fails: with \<open>minSpread = 0.015\<close> and \<open>maxSpread = 0.02\<close> the total spread
  is 0.02 and the skew 1/2 at inventory ratio 1, so the bid spread is 0.015, the ask
  spread is floored at 0.0075, and their sum 0.0225 exceeds \<open>maxSpread\<close>.
\<close>

theorem calculateOptimalSpread_bounds_counterexample:
  "0 < minSpread (DEFAULT_SPREAD_CONFIG\<lparr>minSpread := 15 / 1000\<rparr>)
   \<and> minSpread (DEFAULT_SPREAD_CONFIG\<lparr>minSpread := 15 / 1000\<rparr>)
       \<le> maxSpread (DEFAULT_SPREAD_CONFIG\<lparr>minSpread := 15 / 1000\<rparr>)
   \<and> bidSpread (calculateOptimalSpread (DEFAULT_SPREAD_CONFIG\<lparr>minSpread := 15 / 1000\<rparr>)
       \<lparr>symbol = ''TOKEN/USDC'', lastPrice = 3 / 2, bidPrice = 149 / 100, askPrice = 151 / 100,
        volume24h = 999999, high24h = 16 / 10, low24h = 14 / 10, volatility = 5 / 100\<rparr>
       \<lparr>s_currentInventory = 1000, s_targetInventory = 0, inventoryRatio = 1, skewFactor = 0,
        s_maxInventory = 1000, s_minInventory = - 1000\<rparr>) = 15 / 1000
   \<and> askSpread (calculateOptimalSpread (DEFAULT_SPREAD_CONFIG\<lparr>minSpread := 15 / 1000\<rparr>)
       \<lparr>symbol = ''TOKEN/USDC'', lastPrice = 3 / 2, bidPrice = 149 / 100, askPrice = 151 / 100,
        volume24h = 999999, high24h = 16 / 10, low24h = 14 / 10, volatility = 5 / 100\<rparr>
       \<lparr>s_currentInventory = 1000, s_targetInventory = 0, inventoryRatio = 1, skewFactor = 0,
        s_maxInventory = 1000, s_minInventory = - 1000\<rparr>) = 75 / 10000
   \<and> \<not> (15 / 1000 + 75 / 10000 \<le> maxSpread (DEFAULT_SPREAD_CONFIG\<lparr>minSpread := 15 / 1000\<rparr>))"
  by (simp add: calculateOptimalSpread_def calculateBaseSpread_def
      calculateVolatilityAdjustment_def calculateInventorySkew_def
      DEFAULT_SPREAD_CONFIG_def Let_def)

section \<open>Properties of the coordinator\<close>

text \<open>
  C10. When \<open>orderId\<close> is not a key of the active orders, \<open>processFill\<close> returns \<open>null\<close>
  and the coordinator it was given: orders, both trade histories, inventory, total
  volume and realized P&L are as before, and no warning is printed.
\<close>

theorem processFill_unknown_order:
  assumes "activeOrders mm orderId = None"
  shows "processFill mm now tradeId orderId fillSize fillPrice = (mm, None, None)"
  using assms by (simp add: processFill_def)

theorem processFill_unknown_order_witness:
  "activeOrders ((newMarketMaker DEFAULT_CONFIG 0)
       \<lparr>activeOrders := [''o1'' \<mapsto> \<lparr>o_id = ''o1'', o_side = Buy, o_price = 149 / 100, o_size = 100,
                                   filledSize = 0, status = Pending, createdAt = 1, updatedAt = 1\<rparr>]\<rparr>)
     ''o2'' = None
   \<and> processFill ((newMarketMaker DEFAULT_CONFIG 0)
       \<lparr>activeOrders := [''o1'' \<mapsto> \<lparr>o_id = ''o1'', o_side = Buy, o_price = 149 / 100, o_size = 100,
                                   filledSize = 0, status = Pending, createdAt = 1, updatedAt = 1\<rparr>]\<rparr>)
       2 ''t1'' ''o2'' 50 (149 / 100)
     = ((newMarketMaker DEFAULT_CONFIG 0)
       \<lparr>activeOrders := [''o1'' \<mapsto> \<lparr>o_id = ''o1'', o_side = Buy, o_price = 149 / 100, o_size = 100,
                                   filledSize = 0, status = Pending, createdAt = 1, updatedAt = 1\<rparr>]\<rparr>,
        None, None)"
  using processFill_unknown_order [of "(newMarketMaker DEFAULT_CONFIG 0)
       \<lparr>activeOrders := [''o1'' \<mapsto> \<lparr>o_id = ''o1'', o_side = Buy, o_price = 149 / 100, o_size = 100,
                                   filledSize = 0, status = Pending, createdAt = 1, updatedAt = 1\<rparr>]\<rparr>"
       "''o2''" 2 "''t1''" 50 "149 / 100"]
  by simp

end
